theory Spec2Isabelle
  imports Main "HOL-Library.Sublist"
begin

section \<open>Data model\<close>

text \<open>
  The migration script of \<^verbatim>\<open>main.py\<close> talks to three outside systems: the identity
  provider, the report service and the object store.  Every call it makes is recorded in
  a trace, every line it prints in a second one, and every exception it can raise is a
  value of \<open>error\<close>.  The field \<open>json\<close> of a response is the value that
  \<^verbatim>\<open>response.json()\<close> returns, typed with the shape the endpoint documents.  The answer
  to an import is the one whose body the code decodes on every status, error statuses
  included: there \<open>json\<close> is \<open>None\<close> when the body is empty or is not JSON, and
  \<^verbatim>\<open>response.json()\<close> raises a JSONDecodeError.
\<close>

type_synonym bytes = string

datatype error = HTTPError int | TypeError | JSONDecodeError

record 'j response =
  status_code :: int
  content :: bytes
  json :: 'j

record workspace =
  ws_id :: string
  ws_name :: string

record report =
  report_id :: string
  report_name :: string

record tenant_info =
  tenant_id :: "string option"
  client_id :: "string option"
  client_secret :: "string option"
  username :: "string option"
  password :: "string option"

text \<open>The requests sent and the objects stored, with the arguments the code passes.\<close>

datatype call =
    PostToken tenant_info
  | GetGroups "string option"
  | GetReports "string option" "string option"
  | GetExport "string option" "string option" string
  | PostImport "string option" "string option" string bytes
  | GcsUpload "string option" string bytes

text \<open>
  The lines printed, one constructor for each \<^verbatim>\<open>print\<close> of the source.  The elapsed time
  of \<open>MigrationTook\<close> is wall-clock time and is left out.
\<close>

datatype message =
    TokenFailed int bytes
  | ReportsError int "string option"
  | SourceCount "string option" nat
  | DestCount "string option" nat
  | AlreadyExists string
  | MigrationStarted string
  | PrintId string
  | Uploaded string string
  | ImportBody string
  | MigrationSuccessful "string option"
  | MigrationFailed string
  | MigrationTook

record world =
  stdout :: "message list"
  calls :: "call list"

text \<open>
  The environment variables (\<^verbatim>\<open>os.getenv\<close> gives \<^verbatim>\<open>None\<close> for an unset one), the two
  credential records of the secret, and what each endpoint answers.
\<close>

record env =
  workspace_name :: "string option"
  ignore_reports :: "string option"
  bucket_name :: "string option"
  bucket_destination_directory :: "string option"
  tenant_vgm_info :: tenant_info
  tenant_ft_info :: tenant_info
  token_endpoint :: "tenant_info \<Rightarrow> string option response"
  groups_endpoint :: "string option \<Rightarrow> workspace list response"
  reports_endpoint :: "string option \<Rightarrow> string option \<Rightarrow> report list response"
  export_endpoint :: "string option \<Rightarrow> string option \<Rightarrow> string \<Rightarrow> unit response"
  import_endpoint ::
    "string option \<Rightarrow> string option \<Rightarrow> string \<Rightarrow> bytes \<Rightarrow> string option response"

text \<open>The local variables of \<^verbatim>\<open>main\<close> that the loop reads and never assigns.\<close>

record locals =
  token_vgm :: "string option"
  source_workspace_id :: "string option"
  token_ft :: "string option"
  target_workspace_id :: "string option"
  dst_reports_dict_by_name :: "string \<rightharpoonup> report"

section \<open>Helpers\<close>

definition HTTP_OK :: int where
  "HTTP_OK = 200"

definition py_print :: "message \<Rightarrow> world \<Rightarrow> world" where
  "py_print m w = w\<lparr>stdout := stdout w @ [m]\<rparr>"

definition request :: "call \<Rightarrow> world \<Rightarrow> world" where
  "request c w = w\<lparr>calls := calls w @ [c]\<rparr>"

text \<open>How an f-string renders a value that may be \<^verbatim>\<open>None\<close>.\<close>

fun py_str :: "string option \<Rightarrow> string" where
  "py_str None = ''None''"
| "py_str (Some s) = s"

text \<open>\<^verbatim>\<open>Response.raise_for_status\<close>: an HTTPError for every status from 400 to 599.\<close>

definition raise_for_status :: "'j response \<Rightarrow> error + unit" where
  "raise_for_status r =
     (if 400 \<le> status_code r \<and> status_code r < 600
      then Inl (HTTPError (status_code r)) else Inr ())"

text \<open>Python's \<^verbatim>\<open>sub in s\<close> on two strings: \<open>sub\<close> occurs in \<open>s\<close> as a contiguous run.\<close>

fun str_in :: "string \<Rightarrow> string \<Rightarrow> bool" where
  "str_in sub [] = (sub = [])"
| "str_in sub (c # s) = (prefix sub (c # s) \<or> str_in sub s)"

section \<open>The functions of main.py\<close>

definition get_access_token ::
  "env \<Rightarrow> tenant_info \<Rightarrow> world \<Rightarrow> (error + string option) \<times> world" where
  "get_access_token e tenant w =
     (let response = token_endpoint e tenant;
          w1 = request (PostToken tenant) w;
          w2 = (if status_code response \<noteq> HTTP_OK
                then py_print (TokenFailed (status_code response) (content response)) w1
                else w1)
      in case raise_for_status response of
           Inl err \<Rightarrow> (Inl err, w2)
         | Inr _ \<Rightarrow> (Inr (json response), w2))"

definition get_workspace ::
  "env \<Rightarrow> string option \<Rightarrow> string option \<Rightarrow> world \<Rightarrow> (error + string option) \<times> world" where
  "get_workspace e access_token name w =
     (let response = groups_endpoint e access_token;
          w1 = request (GetGroups access_token) w
      in case raise_for_status response of
           Inl err \<Rightarrow> (Inl err, w1)
         | Inr _ \<Rightarrow>
             (let ws = filter (\<lambda>result. Some (ws_name result) = name) (json response)
              in if length ws > 0 then (Inr (Some (ws_id (ws ! 0))), w1)
                 else (Inr None, w1)))"

definition get_reports ::
  "env \<Rightarrow> string option \<Rightarrow> string option \<Rightarrow> world \<Rightarrow> report list option \<times> world" where
  "get_reports e access_token workspace_id w =
     (let response = reports_endpoint e access_token workspace_id;
          w1 = request (GetReports access_token workspace_id) w
      in if status_code response = HTTP_OK
         then (Some (map (\<lambda>result. \<lparr>report_id = report_id result,
                                     report_name = report_name result\<rparr>) (json response)), w1)
         else (None, py_print (ReportsError (status_code response) workspace_id) w1))"

definition export_report ::
  "env \<Rightarrow> string option \<Rightarrow> string option \<Rightarrow> string \<Rightarrow> world \<Rightarrow> (error + bytes) \<times> world" where
  "export_report e access_token group_id rid w =
     (let response = export_endpoint e access_token group_id rid;
          w1 = request (GetExport access_token group_id rid) w
      in case raise_for_status response of
           Inl err \<Rightarrow> (Inl err, w1)
         | Inr _ \<Rightarrow> (Inr (content response), w1))"

text \<open>
  \<^verbatim>\<open>import_report\<close> decodes the body on both branches: before printing it on a status
  other than 202, and before returning it on 202.  A body that does not decode raises
  there, after the request was sent and before anything is printed.
\<close>

definition import_report ::
  "env \<Rightarrow> string option \<Rightarrow> string option \<Rightarrow> string \<Rightarrow> bytes \<Rightarrow> world
     \<Rightarrow> (error + string option) \<times> world" where
  "import_report e access_token group_id name report_content w =
     (let response = import_endpoint e access_token group_id name report_content;
          w1 = request (PostImport access_token group_id name report_content) w
      in if status_code response \<noteq> 202
         then (case json response of
                 None \<Rightarrow> (Inl JSONDecodeError, w1)
               | Some body \<Rightarrow> (Inr None, py_print (ImportBody body) w1))
         else (case json response of
                 None \<Rightarrow> (Inl JSONDecodeError, w1)
               | Some body \<Rightarrow> (Inr (Some body), w1)))"

definition destination_blob_name :: "env \<Rightarrow> string \<Rightarrow> string" where
  "destination_blob_name e name =
     py_str (bucket_destination_directory e) @ ''/'' @ name @ ''.pbix''"

definition upload_report_to_gcs :: "env \<Rightarrow> bytes \<Rightarrow> string \<Rightarrow> world \<Rightarrow> world" where
  "upload_report_to_gcs e report_content name w =
     py_print (Uploaded name (destination_blob_name e name))
       (request (GcsUpload (bucket_name e) (destination_blob_name e name) report_content) w)"

text \<open>
  The dict comprehension of \<^verbatim>\<open>main\<close>: one key for each name, a later report of the same
  name replacing an earlier one.
\<close>

definition dict_by_name :: "report list \<Rightarrow> string \<rightharpoonup> report" where
  "dict_by_name reports = fold (\<lambda>r m. m(report_name r \<mapsto> r)) reports Map.empty"

text \<open>
  One round of the \<^verbatim>\<open>for\<close> loop.  The state is the list \<^verbatim>\<open>dst_reports_dict\<close>, which the
  round may append to, and the world.  With \<^verbatim>\<open>IGNORE_REPORTS\<close> unset, \<^verbatim>\<open>in\<close> raises a
  TypeError.  An exception of the export or of the import leaves the round at once: nothing
  more is printed and nothing is appended.
\<close>

definition migrate_report ::
  "env \<Rightarrow> locals \<Rightarrow> report \<Rightarrow> report list \<times> world \<Rightarrow> (error + unit) \<times> report list \<times> world" where
  "migrate_report e l r st =
     (let dst_reports_dict = fst st; w = snd st; name = report_name r
      in case ignore_reports e of
           None \<Rightarrow> (Inl TypeError, dst_reports_dict, w)
         | Some ignored \<Rightarrow>
             if \<not> str_in name ignored then
               if dst_reports_dict_by_name l name \<noteq> None
               then (Inr (), dst_reports_dict, py_print (AlreadyExists name) w)
               else
                 (let w1 = py_print (PrintId (report_id r)) (py_print (MigrationStarted name) w)
                  in case export_report e (token_vgm l) (source_workspace_id l) (report_id r) w1 of
                       (Inl err, w2) \<Rightarrow> (Inl err, dst_reports_dict, w2)
                     | (Inr report_content, w2) \<Rightarrow>
                         if report_content \<noteq> [] then
                           (let w3 = upload_report_to_gcs e report_content name w2
                            in case import_report e (token_ft l) (target_workspace_id l)
                                      name report_content w3 of
                                 (Inl err, w4) \<Rightarrow> (Inl err, dst_reports_dict, w4)
                               | (Inr import_response, w4) \<Rightarrow>
                                   (Inr (), dst_reports_dict @ [r],
                                    py_print MigrationTook
                                      (py_print (MigrationSuccessful import_response) w4)))
                         else
                           (Inr (), dst_reports_dict,
                            py_print MigrationTook (py_print (MigrationFailed name) w2)))
             else (Inr (), dst_reports_dict, w))"

text \<open>The loop over the source catalog, in catalog order; an exception ends it.\<close>

fun migrate_reports ::
  "env \<Rightarrow> locals \<Rightarrow> report list \<Rightarrow> report list \<times> world \<Rightarrow> (error + unit) \<times> report list \<times> world" where
  "migrate_reports e l [] st = (Inr (), st)"
| "migrate_reports e l (r # rs) st =
     (case migrate_report e l r st of
        (Inl err, st') \<Rightarrow> (Inl err, st')
      | (Inr _, st') \<Rightarrow> migrate_reports e l rs st')"

text \<open>
  \<^verbatim>\<open>main\<close>, from the first token request on.  \<^verbatim>\<open>len\<close> of the source catalog and the dict
  comprehension over the destination catalog raise a TypeError on \<^verbatim>\<open>None\<close>.
\<close>

definition main :: "env \<Rightarrow> world \<Rightarrow> (error + unit) \<times> world" where
  "main e w =
     (case get_access_token e (tenant_vgm_info e) w of
        (Inl err, w1) \<Rightarrow> (Inl err, w1)
      | (Inr tok_vgm, w1) \<Rightarrow>
     (case get_workspace e tok_vgm (workspace_name e) w1 of
        (Inl err, w2) \<Rightarrow> (Inl err, w2)
      | (Inr src_ws, w2) \<Rightarrow>
     (case get_reports e tok_vgm src_ws w2 of
        (None, w3) \<Rightarrow> (Inl TypeError, w3)
      | (Some source_reports_dict, w3) \<Rightarrow>
     (let w4 = py_print (SourceCount (workspace_name e) (length source_reports_dict)) w3
      in case get_access_token e (tenant_ft_info e) w4 of
        (Inl err, w5) \<Rightarrow> (Inl err, w5)
      | (Inr tok_ft, w5) \<Rightarrow>
     (case get_workspace e tok_ft (workspace_name e) w5 of
        (Inl err, w6) \<Rightarrow> (Inl err, w6)
      | (Inr dst_ws, w6) \<Rightarrow>
     (case get_reports e tok_ft dst_ws w6 of
        (None, w7) \<Rightarrow> (Inl TypeError, w7)
      | (Some dst_reports_dict, w7) \<Rightarrow>
     (let l = \<lparr>token_vgm = tok_vgm, source_workspace_id = src_ws,
                token_ft = tok_ft, target_workspace_id = dst_ws,
                dst_reports_dict_by_name = dict_by_name dst_reports_dict\<rparr>;
          w8 = py_print (DestCount (workspace_name e) (length dst_reports_dict)) w7;
          done = migrate_reports e l source_reports_dict (dst_reports_dict, w8)
      in (fst done, snd (snd done)))))))))"

section \<open>Sample runs\<close>

text \<open>
  The environment of \<^verbatim>\<open>test_main\<close>: its workspace name, its ignore configuration, one
  token for each tenant, one workspace for each token.  The source listing's status, the
  two catalogs, the export answers and the import status vary from run to run.
\<close>

definition fake_tenant :: "string \<Rightarrow> tenant_info" where
  "fake_tenant t =
     \<lparr>tenant_id = Some t, client_id = Some ''fake_client_id'',
      client_secret = Some ''fake_client_secret'', username = Some ''fake_username'',
      password = Some ''fake_password''\<rparr>"

definition fake_ignore_reports :: string where
  \<open>fake_ignore_reports = ''["ignore_report_1", "ignore_report_2"]''\<close>

definition sample_env ::
  "int \<Rightarrow> report list \<Rightarrow> report list \<Rightarrow> (string \<Rightarrow> unit response) \<Rightarrow> int \<Rightarrow> env" where
  "sample_env listing_status src dst export import_status =
     \<lparr>workspace_name = Some ''fake_workspace'',
      ignore_reports = Some fake_ignore_reports,
      bucket_name = Some ''fake_bucket'',
      bucket_destination_directory = Some ''fake_directory'',
      tenant_vgm_info = fake_tenant ''vgm'',
      tenant_ft_info = fake_tenant ''ft'',
      token_endpoint = (\<lambda>t.
        \<lparr>status_code = 200, content = [],
         json = (if tenant_id t = Some ''vgm'' then Some ''fake_token_vgm''
                 else Some ''fake_token_ft'')\<rparr>),
      groups_endpoint = (\<lambda>tok.
        \<lparr>status_code = 200, content = [],
         json = [\<lparr>ws_id = (if tok = Some ''fake_token_vgm'' then ''source_workspace_id''
                           else ''target_workspace_id''),
                  ws_name = ''fake_workspace''\<rparr>]\<rparr>),
      reports_endpoint = (\<lambda>tok ws.
        if tok = Some ''fake_token_vgm''
        then \<lparr>status_code = listing_status, content = [], json = src\<rparr>
        else \<lparr>status_code = 200, content = [], json = dst\<rparr>),
      export_endpoint = (\<lambda>tok ws rid. export rid),
      import_endpoint = (\<lambda>tok ws name c.
        \<lparr>status_code = import_status, content = [], json = Some ''fake_import_id''\<rparr>)\<rparr>"

definition sample_locals :: "report list \<Rightarrow> locals" where
  "sample_locals dst =
     \<lparr>token_vgm = Some ''fake_token_vgm'', source_workspace_id = Some ''source_workspace_id'',
      token_ft = Some ''fake_token_ft'', target_workspace_id = Some ''target_workspace_id'',
      dst_reports_dict_by_name = dict_by_name dst\<rparr>"

definition exported :: "int \<Rightarrow> bytes \<Rightarrow> unit response" where
  "exported status c = \<lparr>status_code = status, content = c, json = ()\<rparr>"

definition quiet :: world where
  "quiet = \<lparr>stdout = [], calls = []\<rparr>"

text \<open>A workspace listing in which the name of the test occurs twice, after another one.\<close>

definition duplicate_workspaces :: "workspace list" where
  "duplicate_workspaces =
     [\<lparr>ws_id = ''a'', ws_name = ''other''\<rparr>,
      \<lparr>ws_id = ''b'', ws_name = ''fake_workspace''\<rparr>,
      \<lparr>ws_id = ''c'', ws_name = ''fake_workspace''\<rparr>]"

definition workspaces_env :: env where
  "workspaces_env =
     (sample_env 200 [] [] (\<lambda>rid. exported 200 []) 202)
       \<lparr>groups_endpoint :=
          (\<lambda>tok. \<lparr>status_code = 200, content = [], json = duplicate_workspaces\<rparr>)\<rparr>"

text \<open>
  The same environment with every export returning content and every import answered by
  status 500 and an empty body, which does not decode.
\<close>

definition undecodable_import_env :: "report list \<Rightarrow> env" where
  "undecodable_import_env src =
     (sample_env 200 src [] (\<lambda>rid. exported 200 ''fake_report_content'') 500)
       \<lparr>import_endpoint :=
          (\<lambda>tok ws name c. \<lparr>status_code = 500, content = [], json = None\<rparr>)\<rparr>"

section \<open>Facts about the helpers and about one round of the loop\<close>

lemma str_in_sublist: "str_in sub s = sublist sub s"
  by (induction s) (auto simp: sublist_Cons_right)

lemma str_in_iff: "str_in sub s \<longleftrightarrow> (\<exists>ps ss. s = ps @ sub @ ss)"
  by (simp add: str_in_sublist sublist_def)

lemma dict_by_name_fold:
  "fold (\<lambda>r m. m(report_name r \<mapsto> r)) rs m0 n \<noteq> None
     \<longleftrightarrow> n \<in> report_name ` set rs \<or> m0 n \<noteq> None"
  by (induction rs arbitrary: m0) auto

lemma dict_by_name_dom: "dict_by_name rs n \<noteq> None \<longleftrightarrow> n \<in> report_name ` set rs"
  using dict_by_name_fold [of rs Map.empty n] by (simp add: dict_by_name_def)

lemma migrate_report_ignored:
  "ignore_reports e = Some cfg \<Longrightarrow> str_in (report_name r) cfg
     \<Longrightarrow> migrate_report e l r st = (Inr (), st)"
  by (simp add: migrate_report_def)

lemma migrate_report_present:
  "ignore_reports e = Some cfg \<Longrightarrow> \<not> str_in (report_name r) cfg
     \<Longrightarrow> dst_reports_dict_by_name l (report_name r) \<noteq> None
     \<Longrightarrow> migrate_report e l r (dst, w)
           = (Inr (), dst, py_print (AlreadyExists (report_name r)) w)"
  by (auto simp add: migrate_report_def)

lemma migrate_report_export_error:
  assumes "ignore_reports e = Some cfg" and "\<not> str_in (report_name r) cfg"
    and "dst_reports_dict_by_name l (report_name r) = None"
    and "400 \<le> status_code (export_endpoint e (token_vgm l) (source_workspace_id l) (report_id r))"
    and "status_code (export_endpoint e (token_vgm l) (source_workspace_id l) (report_id r)) < 600"
  shows "migrate_report e l r (dst, w) =
     (Inl (HTTPError (status_code
             (export_endpoint e (token_vgm l) (source_workspace_id l) (report_id r)))),
      dst,
      request (GetExport (token_vgm l) (source_workspace_id l) (report_id r))
        (py_print (PrintId (report_id r)) (py_print (MigrationStarted (report_name r)) w)))"
  using assms by (simp add: migrate_report_def export_report_def raise_for_status_def Let_def)

lemma migrate_report_export_empty:
  assumes "ignore_reports e = Some cfg" and "\<not> str_in (report_name r) cfg"
    and "dst_reports_dict_by_name l (report_name r) = None"
    and "\<not> (400 \<le> status_code (export_endpoint e (token_vgm l) (source_workspace_id l) (report_id r))
           \<and> status_code (export_endpoint e (token_vgm l) (source_workspace_id l) (report_id r)) < 600)"
    and "content (export_endpoint e (token_vgm l) (source_workspace_id l) (report_id r)) = []"
  shows "migrate_report e l r (dst, w) =
     (Inr (), dst,
      py_print MigrationTook (py_print (MigrationFailed (report_name r))
       (request (GetExport (token_vgm l) (source_workspace_id l) (report_id r))
        (py_print (PrintId (report_id r)) (py_print (MigrationStarted (report_name r)) w)))))"
  using assms by (simp add: migrate_report_def export_report_def raise_for_status_def Let_def)

lemma migrate_report_exported:
  assumes "ignore_reports e = Some cfg" and "\<not> str_in (report_name r) cfg"
    and "dst_reports_dict_by_name l (report_name r) = None"
    and "\<not> (400 \<le> status_code (export_endpoint e (token_vgm l) (source_workspace_id l) (report_id r))
           \<and> status_code (export_endpoint e (token_vgm l) (source_workspace_id l) (report_id r)) < 600)"
    and "content (export_endpoint e (token_vgm l) (source_workspace_id l) (report_id r)) = c"
    and "c \<noteq> []"
  shows "migrate_report e l r (dst, w) =
     (case import_report e (token_ft l) (target_workspace_id l) (report_name r) c
             (upload_report_to_gcs e c (report_name r)
               (request (GetExport (token_vgm l) (source_workspace_id l) (report_id r))
                 (py_print (PrintId (report_id r))
                   (py_print (MigrationStarted (report_name r)) w)))) of
        (Inl err, w4) \<Rightarrow> (Inl err, dst, w4)
      | (Inr import_response, w4) \<Rightarrow>
          (Inr (), dst @ [r],
           py_print MigrationTook (py_print (MigrationSuccessful import_response) w4)))"
  using assms
  by (auto simp add: migrate_report_def export_report_def raise_for_status_def Let_def
        split: prod.splits sum.splits)

lemma filter_first_match:
  "\<forall>y\<in>set pre. \<not> P y \<Longrightarrow> P x \<Longrightarrow> filter P (pre @ x # post) = x # filter P post"
  by (induction pre) simp_all

lemma filter_no_match: "\<forall>y\<in>set xs. \<not> P y \<Longrightarrow> filter P xs = []"
  by (induction xs) simp_all

lemmas sample_defs = sample_env_def sample_locals_def fake_tenant_def fake_ignore_reports_def
  exported_def quiet_def duplicate_workspaces_def workspaces_env_def undecodable_import_env_def

lemmas code_defs = main_def get_access_token_def get_workspace_def get_reports_def
  export_report_def import_report_def upload_report_to_gcs_def destination_blob_name_def
  migrate_report_def raise_for_status_def py_print_def request_def HTTP_OK_def dict_by_name_def
  Let_def

lemma sample_env_fields:
  "ignore_reports (sample_env a src dst ex i) = Some fake_ignore_reports"
  "bucket_name (sample_env a src dst ex i) = Some ''fake_bucket''"
  "bucket_destination_directory (sample_env a src dst ex i) = Some ''fake_directory''"
  "export_endpoint (sample_env a src dst ex i) tok ws rid = ex rid"
  "import_endpoint (sample_env a src dst ex i) tok ws n c
     = \<lparr>status_code = i, content = [], json = Some ''fake_import_id''\<rparr>"
  by (simp_all add: sample_env_def)

lemma sample_locals_fields:
  "token_vgm (sample_locals dst) = Some ''fake_token_vgm''"
  "source_workspace_id (sample_locals dst) = Some ''source_workspace_id''"
  "token_ft (sample_locals dst) = Some ''fake_token_ft''"
  "target_workspace_id (sample_locals dst) = Some ''target_workspace_id''"
  "dst_reports_dict_by_name (sample_locals dst) = dict_by_name dst"
  by (simp_all add: sample_locals_def)

lemmas sample_facts = sample_env_fields sample_locals_fields exported_def quiet_def
  fake_ignore_reports_def dict_by_name_def destination_blob_name_def

section \<open>The claims\<close>

text \<open>
  C8.  When the workspace listing is answered without an error status, \<open>get_workspace\<close>
  returns the id of the first listed workspace whose name equals the requested one,
  whatever follows it in the listing, and the absent result when no listed workspace has
  that name.
\<close>

theorem get_workspace_first_match:
  assumes "resp = groups_endpoint e tok"
    and "\<not> (400 \<le> status_code resp \<and> status_code resp < 600)"
  shows "(json resp = pre @ x # post \<and> (\<forall>y\<in>set pre. ws_name y \<noteq> n) \<and> ws_name x = n
            \<longrightarrow> get_workspace e tok (Some n) w
                  = (Inr (Some (ws_id x)), \<lparr>stdout = stdout w, calls = calls w @ [GetGroups tok]\<rparr>))
       \<and> ((\<forall>y\<in>set (json resp). ws_name y \<noteq> n)
            \<longrightarrow> get_workspace e tok (Some n) w
                  = (Inr None, \<lparr>stdout = stdout w, calls = calls w @ [GetGroups tok]\<rparr>))"
proof (intro conjI impI)
  assume m: "json resp = pre @ x # post \<and> (\<forall>y\<in>set pre. ws_name y \<noteq> n) \<and> ws_name x = n"
  then have "filter (\<lambda>result. Some (ws_name result) = Some n) (json resp)
               = x # filter (\<lambda>result. Some (ws_name result) = Some n) post"
    by (simp add: filter_first_match)
  with assms show "get_workspace e tok (Some n) w
      = (Inr (Some (ws_id x)), \<lparr>stdout = stdout w, calls = calls w @ [GetGroups tok]\<rparr>)"
    by (cases w) (simp add: get_workspace_def raise_for_status_def request_def Let_def)
next
  assume "\<forall>y\<in>set (json resp). ws_name y \<noteq> n"
  then have "filter (\<lambda>result. Some (ws_name result) = Some n) (json resp) = []"
    by (simp add: filter_no_match)
  with assms show "get_workspace e tok (Some n) w
      = (Inr None, \<lparr>stdout = stdout w, calls = calls w @ [GetGroups tok]\<rparr>)"
    by (cases w) (simp add: get_workspace_def raise_for_status_def request_def Let_def)
qed

theorem get_workspace_first_match_witness:
  "get_workspace workspaces_env (Some ''fake_token_vgm'') (Some ''fake_workspace'') quiet
     = (Inr (Some ''b''), \<lparr>stdout = [], calls = [GetGroups (Some ''fake_token_vgm'')]\<rparr>)
   \<and> get_workspace workspaces_env (Some ''fake_token_vgm'') (Some ''Fake_Workspace'') quiet
     = (Inr None, \<lparr>stdout = [], calls = [GetGroups (Some ''fake_token_vgm'')]\<rparr>)"
  using get_workspace_first_match
          [where e = workspaces_env and tok = "Some ''fake_token_vgm''" and w = quiet
             and resp = "\<lparr>status_code = 200, content = [], json = duplicate_workspaces\<rparr>"
             and pre = "[\<lparr>ws_id = ''a'', ws_name = ''other''\<rparr>]"
             and x = "\<lparr>ws_id = ''b'', ws_name = ''fake_workspace''\<rparr>"
             and post = "[\<lparr>ws_id = ''c'', ws_name = ''fake_workspace''\<rparr>]"
             and n = "''fake_workspace''"]
        get_workspace_first_match
          [where e = workspaces_env and tok = "Some ''fake_token_vgm''" and w = quiet
             and resp = "\<lparr>status_code = 200, content = [], json = duplicate_workspaces\<rparr>"
             and n = "''Fake_Workspace''"]
  by (simp add: sample_defs)

text \<open>
  C5.  Let \<open>S\<close> be a set of names, each of them written in \<^verbatim>\<open>IGNORE_REPORTS\<close>.  Then the
  run over a source catalog is the run over the catalog without the reports named in
  \<open>S\<close>: the same calls, the same output, the same result.  A round for such a report
  changes nothing, whatever the state it starts from, so nothing is exported, archived or
  imported for it.
\<close>

theorem ignore_list_exclusion:
  assumes "ignore_reports e = Some cfg" and "\<forall>n\<in>S. str_in n cfg"
  shows "migrate_reports e l src st
           = migrate_reports e l (filter (\<lambda>r. report_name r \<notin> S) src) st
       \<and> (\<forall>r\<in>set src. report_name r \<in> S \<longrightarrow> (\<forall>st'. migrate_report e l r st' = (Inr (), st')))"
proof
  show "migrate_reports e l src st
           = migrate_reports e l (filter (\<lambda>r. report_name r \<notin> S) src) st"
  proof (induction src arbitrary: st)
    case Nil
    show ?case by simp
  next
    case (Cons r rs)
    show ?case
    proof (cases "report_name r \<in> S")
      case True
      with assms have "migrate_report e l r st = (Inr (), st)"
        by (simp add: migrate_report_ignored)
      with True Cons show ?thesis by simp
    next
      case False
      with Cons show ?thesis by (simp split: prod.splits sum.splits)
    qed
  qed
next
  from assms show "\<forall>r\<in>set src. report_name r \<in> S \<longrightarrow> (\<forall>st'. migrate_report e l r st' = (Inr (), st'))"
    by (simp add: migrate_report_ignored)
qed

theorem ignore_list_exclusion_witness:
  "str_in ''ignore_report_1'' fake_ignore_reports
   \<and> str_in ''ignore_report_2'' fake_ignore_reports
   \<and> migrate_reports (sample_env 200 [] [] (\<lambda>rid. exported 200 ''fake_report_content'') 202)
        (sample_locals [])
        [\<lparr>report_id = ''1'', report_name = ''ignore_report_1''\<rparr>,
         \<lparr>report_id = ''2'', report_name = ''Report 1''\<rparr>,
         \<lparr>report_id = ''3'', report_name = ''ignore_report_2''\<rparr>] ([], quiet)
     = migrate_reports (sample_env 200 [] [] (\<lambda>rid. exported 200 ''fake_report_content'') 202)
        (sample_locals [])
        [\<lparr>report_id = ''2'', report_name = ''Report 1''\<rparr>] ([], quiet)"
proof -
  have cfg: "ignore_reports (sample_env 200 [] [] (\<lambda>rid. exported 200 ''fake_report_content'') 202)
               = Some fake_ignore_reports"
    by (simp add: sample_env_def)
  have listed: "\<forall>n\<in>{''ignore_report_1'', ''ignore_report_2''}. str_in n fake_ignore_reports"
    by (simp add: fake_ignore_reports_def)
  have kept: "filter (\<lambda>r. report_name r \<notin> {''ignore_report_1'', ''ignore_report_2''})
                [\<lparr>report_id = ''1'', report_name = ''ignore_report_1''\<rparr>,
                 \<lparr>report_id = ''2'', report_name = ''Report 1''\<rparr>,
                 \<lparr>report_id = ''3'', report_name = ''ignore_report_2''\<rparr>]
              = [\<lparr>report_id = ''2'', report_name = ''Report 1''\<rparr>]"
    by simp
  note run = ignore_list_exclusion
               [where l = "sample_locals []" and st = "([], quiet)"
                  and src = "[\<lparr>report_id = ''1'', report_name = ''ignore_report_1''\<rparr>,
                              \<lparr>report_id = ''2'', report_name = ''Report 1''\<rparr>,
                              \<lparr>report_id = ''3'', report_name = ''ignore_report_2''\<rparr>]",
                OF cfg listed, THEN conjunct1]
  from listed have "str_in ''ignore_report_1'' fake_ignore_reports"
    and "str_in ''ignore_report_2'' fake_ignore_reports"
    by simp_all
  with run [unfolded kept] show ?thesis by (intro conjI)
qed

text \<open>
  C9.  The ignore check is a substring test on the raw \<^verbatim>\<open>IGNORE_REPORTS\<close> string: a round
  leaves the state as it was (no call, no line printed, the destination list unchanged)
  exactly when the report's name occurs in that string as a contiguous run of characters.
\<close>

theorem substring_ignore_silent:
  assumes "ignore_reports e = Some cfg"
  shows "(\<exists>ps ss. cfg = ps @ report_name r @ ss) \<longleftrightarrow> migrate_report e l r st = (Inr (), st)"
proof
  assume "\<exists>ps ss. cfg = ps @ report_name r @ ss"
  then have "str_in (report_name r) cfg" by (simp only: str_in_iff)
  with assms show "migrate_report e l r st = (Inr (), st)"
    by (simp add: migrate_report_ignored)
next
  assume silent: "migrate_report e l r st = (Inr (), st)"
  have "str_in (report_name r) cfg"
  proof (rule ccontr)
    assume n: "\<not> str_in (report_name r) cfg"
    have "stdout (snd (snd (migrate_report e l r st))) \<noteq> stdout (snd st)"
      using assms n
      by (simp add: migrate_report_def export_report_def import_report_def
            upload_report_to_gcs_def py_print_def request_def Let_def
            split: sum.splits prod.splits option.splits)
    with silent show False by simp
  qed
  then show "\<exists>ps ss. cfg = ps @ report_name r @ ss" by (simp only: str_in_iff)
qed

theorem substring_ignore_silent_witness:
  "(\<exists>ps ss. fake_ignore_reports = ps @ ''report_1'' @ ss)
   \<and> ''report_1'' \<notin> {''ignore_report_1'', ''ignore_report_2''}
   \<and> migrate_report (sample_env 200 [] [] (\<lambda>rid. exported 200 ''fake_report_content'') 202)
        (sample_locals []) \<lparr>report_id = ''7'', report_name = ''report_1''\<rparr> ([], quiet)
     = (Inr (), [], quiet)"
proof -
  have "str_in ''report_1'' fake_ignore_reports"
    by (simp add: fake_ignore_reports_def)
  then have occurs: "\<exists>ps ss. fake_ignore_reports = ps @ ''report_1'' @ ss"
    by (simp only: str_in_iff)
  then have occurs': "\<exists>ps ss. fake_ignore_reports
         = ps @ report_name \<lparr>report_id = ''7'', report_name = ''report_1''\<rparr> @ ss"
    by simp
  have cfg: "ignore_reports (sample_env 200 [] [] (\<lambda>rid. exported 200 ''fake_report_content'') 202)
               = Some fake_ignore_reports"
    by (simp add: sample_env_fields)
  note silent = substring_ignore_silent
      [where l = "sample_locals []" and st = "([], quiet)", OF cfg, THEN iffD1, OF occurs']
  have other: "''report_1'' \<notin> {''ignore_report_1'', ''ignore_report_2''}"
    by simp
  from occurs other silent show ?thesis by (intro conjI)
qed

text \<open>
  C6.  A report that is not ignored and whose name equals, character for character, the
  name of a report in the destination catalog of which the lookup was built before the
  loop, is skipped: the round prints one line and makes no call, whatever was appended to
  the destination list in the meantime.
\<close>

theorem destination_presence_skip:
  assumes "ignore_reports e = Some cfg" and "\<not> str_in (report_name r) cfg"
    and "dst_reports_dict_by_name l = dict_by_name dst0"
    and "report_name r \<in> report_name ` set dst0"
  shows "migrate_report e l r (dst, w)
           = (Inr (), dst, \<lparr>stdout = stdout w @ [AlreadyExists (report_name r)], calls = calls w\<rparr>)"
proof -
  from assms(3,4) have "dst_reports_dict_by_name l (report_name r) \<noteq> None"
    by (simp only: dict_by_name_dom)
  with assms(1,2) show ?thesis
    by (cases w) (simp add: migrate_report_present [where cfg = cfg] py_print_def)
qed

theorem destination_presence_skip_witness:
  "\<not> str_in ''Report 1'' fake_ignore_reports
   \<and> migrate_report (sample_env 200 [] [] (\<lambda>rid. exported 200 ''fake_report_content'') 202)
        (sample_locals [\<lparr>report_id = ''9'', report_name = ''Report 1''\<rparr>])
        \<lparr>report_id = ''1'', report_name = ''Report 1''\<rparr>
        ([\<lparr>report_id = ''9'', report_name = ''Report 1''\<rparr>], quiet)
     = (Inr (), [\<lparr>report_id = ''9'', report_name = ''Report 1''\<rparr>],
        \<lparr>stdout = [AlreadyExists ''Report 1''], calls = []\<rparr>)"
  using destination_presence_skip
          [where e = "sample_env 200 [] [] (\<lambda>rid. exported 200 ''fake_report_content'') 202"
             and cfg = fake_ignore_reports
             and r = "\<lparr>report_id = ''1'', report_name = ''Report 1''\<rparr>"
             and l = "sample_locals [\<lparr>report_id = ''9'', report_name = ''Report 1''\<rparr>]"
             and ?dst0.0 = "[\<lparr>report_id = ''9'', report_name = ''Report 1''\<rparr>]"
             and dst = "[\<lparr>report_id = ''9'', report_name = ''Report 1''\<rparr>]"
             and w = quiet]
  by (simp add: sample_env_fields sample_locals_fields quiet_def fake_ignore_reports_def)

text \<open>
  C7.  For a report that is migrated (not ignored, not present, exported with content),
  the calls of the round are, in this order: the export, the store of exactly the exported
  bytes under \<^verbatim>\<open>{directory}/{report_name}.pbix\<close>, the import of the same bytes under
  the report's name.
\<close>

theorem archive_before_import:
  assumes "ignore_reports e = Some cfg" and "\<not> str_in (report_name r) cfg"
    and "dst_reports_dict_by_name l (report_name r) = None"
    and "resp = export_endpoint e (token_vgm l) (source_workspace_id l) (report_id r)"
    and "\<not> (400 \<le> status_code resp \<and> status_code resp < 600)"
    and "content resp \<noteq> []"
    and "bucket_destination_directory e = Some d"
  shows "calls (snd (snd (migrate_report e l r (dst, w)))) =
           calls w @
           [GetExport (token_vgm l) (source_workspace_id l) (report_id r),
            GcsUpload (bucket_name e) (d @ ''/'' @ report_name r @ ''.pbix'') (content resp),
            PostImport (token_ft l) (target_workspace_id l) (report_name r) (content resp)]"
  using assms
  by (simp add: migrate_report_exported [where cfg = cfg and c = "content resp"]
        upload_report_to_gcs_def import_report_def destination_blob_name_def
        py_print_def request_def Let_def split: option.splits)

theorem archive_before_import_witness:
  "calls (snd (snd (migrate_report
       (sample_env 200 [] [] (\<lambda>rid. exported 200 ''fake_report_content'') 202)
       (sample_locals []) \<lparr>report_id = ''1'', report_name = ''Report 1''\<rparr> ([], quiet))))
   = [GetExport (Some ''fake_token_vgm'') (Some ''source_workspace_id'') ''1'',
      GcsUpload (Some ''fake_bucket'') ''fake_directory/Report 1.pbix'' ''fake_report_content'',
      PostImport (Some ''fake_token_ft'') (Some ''target_workspace_id'') ''Report 1''
        ''fake_report_content'']"
  using archive_before_import
          [where e = "sample_env 200 [] [] (\<lambda>rid. exported 200 ''fake_report_content'') 202"
             and cfg = fake_ignore_reports
             and r = "\<lparr>report_id = ''1'', report_name = ''Report 1''\<rparr>"
             and l = "sample_locals []"
             and resp = "exported 200 ''fake_report_content''"
             and d = "''fake_directory''" and dst = "[]" and w = quiet]
  by (simp add: sample_facts)




text \<open>
  C4 (the code departs from the claim).  The claim: on any status other than 202,
  \<open>import_report\<close> logs the response body and returns the absent result, and the run
  continues.  \<open>import_report\<close> decodes the body before it prints it.  In the run below two
  reports are to be migrated and every import is answered by status 500 with an empty
  body: the decoding raises, nothing is logged for the rejection, the run ends with the
  JSONDecodeError and the second report is never exported.
\<close>

theorem undecodable_import_aborts_run:
  "main (undecodable_import_env
           [\<lparr>report_id = ''1'', report_name = ''Report 1''\<rparr>,
            \<lparr>report_id = ''2'', report_name = ''Report 2''\<rparr>]) quiet
   = (Inl JSONDecodeError,
      \<lparr>stdout =
         [SourceCount (Some ''fake_workspace'') 2, DestCount (Some ''fake_workspace'') 0,
          MigrationStarted ''Report 1'', PrintId ''1'',
          Uploaded ''Report 1'' ''fake_directory/Report 1.pbix''],
       calls =
         [PostToken (fake_tenant ''vgm''),
          GetGroups (Some ''fake_token_vgm''),
          GetReports (Some ''fake_token_vgm'') (Some ''source_workspace_id''),
          PostToken (fake_tenant ''ft''),
          GetGroups (Some ''fake_token_ft''),
          GetReports (Some ''fake_token_ft'') (Some ''target_workspace_id''),
          GetExport (Some ''fake_token_vgm'') (Some ''source_workspace_id'') ''1'',
          GcsUpload (Some ''fake_bucket'') ''fake_directory/Report 1.pbix'' ''fake_report_content'',
          PostImport (Some ''fake_token_ft'') (Some ''target_workspace_id'') ''Report 1''
            ''fake_report_content'']\<rparr>)"
  by (simp add: sample_defs code_defs)

text \<open>
  C2, counterexample.  The claim: an export that answers with an error status is logged as
  a failure and the run continues with the next report.  Here the export of the first of
  two reports answers 500: \<open>raise_for_status\<close> raises, no failure line is printed, the
  run ends with the HTTPError and the second report is never exported.
\<close>

theorem export_error_aborts_run:
  "main (sample_env 200
           [\<lparr>report_id = ''1'', report_name = ''Report 1''\<rparr>,
            \<lparr>report_id = ''2'', report_name = ''Report 2''\<rparr>] []
           (\<lambda>rid. if rid = ''1'' then exported 500 [] else exported 200 ''fake_report_content'')
           202) quiet
   = (Inl (HTTPError 500),
      \<lparr>stdout =
         [SourceCount (Some ''fake_workspace'') 2, DestCount (Some ''fake_workspace'') 0,
          MigrationStarted ''Report 1'', PrintId ''1''],
       calls =
         [PostToken (fake_tenant ''vgm''),
          GetGroups (Some ''fake_token_vgm''),
          GetReports (Some ''fake_token_vgm'') (Some ''source_workspace_id''),
          PostToken (fake_tenant ''ft''),
          GetGroups (Some ''fake_token_ft''),
          GetReports (Some ''fake_token_ft'') (Some ''target_workspace_id''),
          GetExport (Some ''fake_token_vgm'') (Some ''source_workspace_id'') ''1'']\<rparr>)"
  by (simp add: sample_defs code_defs)

text \<open>
  C2, as amended.  For a report that is neither ignored nor present in the destination:
  when the export answers without an error status and with empty content, the round
  prints the failure line, makes no call but the export, and the run goes on with the next
  report; when the export answers with a status from 400 to 599, the run ends there with
  the HTTPError, again with no call but the export.
\<close>

theorem export_failure_handling:
  assumes "ignore_reports e = Some cfg" and "\<not> str_in (report_name r) cfg"
    and "dst_reports_dict_by_name l (report_name r) = None"
    and "resp = export_endpoint e (token_vgm l) (source_workspace_id l) (report_id r)"
  shows "(\<not> (400 \<le> status_code resp \<and> status_code resp < 600) \<and> content resp = [] \<longrightarrow>
            migrate_reports e l (r # rs) (dst, w) =
            migrate_reports e l rs
              (dst, \<lparr>stdout = stdout w @ [MigrationStarted (report_name r), PrintId (report_id r),
                                           MigrationFailed (report_name r), MigrationTook],
                     calls = calls w @ [GetExport (token_vgm l) (source_workspace_id l)
                                          (report_id r)]\<rparr>))
       \<and> (400 \<le> status_code resp \<and> status_code resp < 600 \<longrightarrow>
            migrate_reports e l (r # rs) (dst, w) =
              (Inl (HTTPError (status_code resp)), dst,
               \<lparr>stdout = stdout w @ [MigrationStarted (report_name r), PrintId (report_id r)],
                calls = calls w @ [GetExport (token_vgm l) (source_workspace_id l)
                                     (report_id r)]\<rparr>))"
proof (intro conjI impI)
  assume ok: "\<not> (400 \<le> status_code resp \<and> status_code resp < 600) \<and> content resp = []"
  from ok assms show "migrate_reports e l (r # rs) (dst, w) =
            migrate_reports e l rs
              (dst, \<lparr>stdout = stdout w @ [MigrationStarted (report_name r), PrintId (report_id r),
                                           MigrationFailed (report_name r), MigrationTook],
                     calls = calls w @ [GetExport (token_vgm l) (source_workspace_id l)
                                          (report_id r)]\<rparr>)"
    by (cases w) (simp add: migrate_report_export_empty [where cfg = cfg] py_print_def request_def)
next
  assume bad: "400 \<le> status_code resp \<and> status_code resp < 600"
  from bad assms show "migrate_reports e l (r # rs) (dst, w) =
              (Inl (HTTPError (status_code resp)), dst,
               \<lparr>stdout = stdout w @ [MigrationStarted (report_name r), PrintId (report_id r)],
                calls = calls w @ [GetExport (token_vgm l) (source_workspace_id l)
                                     (report_id r)]\<rparr>)"
    by (cases w) (simp add: migrate_report_export_error [where cfg = cfg] py_print_def request_def)
qed

theorem export_failure_handling_witness:
  "migrate_reports (sample_env 200 [] [] (\<lambda>rid. exported 200 []) 202) (sample_locals [])
        [\<lparr>report_id = ''1'', report_name = ''Report 1''\<rparr>,
         \<lparr>report_id = ''2'', report_name = ''Report 2''\<rparr>] ([], quiet)
     = migrate_reports (sample_env 200 [] [] (\<lambda>rid. exported 200 []) 202) (sample_locals [])
        [\<lparr>report_id = ''2'', report_name = ''Report 2''\<rparr>]
        ([], \<lparr>stdout = [MigrationStarted ''Report 1'', PrintId ''1'',
                         MigrationFailed ''Report 1'', MigrationTook],
               calls = [GetExport (Some ''fake_token_vgm'') (Some ''source_workspace_id'')
                          ''1'']\<rparr>)
   \<and> migrate_reports (sample_env 200 [] [] (\<lambda>rid. exported 500 []) 202) (sample_locals [])
        [\<lparr>report_id = ''1'', report_name = ''Report 1''\<rparr>,
         \<lparr>report_id = ''2'', report_name = ''Report 2''\<rparr>] ([], quiet)
     = (Inl (HTTPError 500), [],
        \<lparr>stdout = [MigrationStarted ''Report 1'', PrintId ''1''],
         calls = [GetExport (Some ''fake_token_vgm'') (Some ''source_workspace_id'') ''1'']\<rparr>)"
  using export_failure_handling
          [where e = "sample_env 200 [] [] (\<lambda>rid. exported 200 []) 202"
             and cfg = fake_ignore_reports
             and r = "\<lparr>report_id = ''1'', report_name = ''Report 1''\<rparr>"
             and l = "sample_locals []" and resp = "exported 200 []"
             and rs = "[\<lparr>report_id = ''2'', report_name = ''Report 2''\<rparr>]"
             and dst = "[]" and w = quiet]
        export_failure_handling
          [where e = "sample_env 200 [] [] (\<lambda>rid. exported 500 []) 202"
             and cfg = fake_ignore_reports
             and r = "\<lparr>report_id = ''1'', report_name = ''Report 1''\<rparr>"
             and l = "sample_locals []" and resp = "exported 500 []"
             and rs = "[\<lparr>report_id = ''2'', report_name = ''Report 2''\<rparr>]"
             and dst = "[]" and w = quiet]
  by (simp add: sample_facts del: migrate_reports.simps)

text \<open>
  C1 (the code departs from the claim).  The claim: with two source reports of the same
  name and an empty destination catalog, the first is migrated and appended to the
  in-memory destination list and the second is skipped, so a name is migrated at most once
  in a run.  The run below is that scenario.  The loop tests the name against
  \<open>dst_reports_dict_by_name\<close>, which is built before the loop and never updated; the
  append goes to the list, which is never read again.  So both reports are exported,
  archived and imported.
\<close>

theorem duplicate_name_migrated_twice:
  "main (sample_env 200
           [\<lparr>report_id = ''1'', report_name = ''Report 1''\<rparr>,
            \<lparr>report_id = ''2'', report_name = ''Report 1''\<rparr>] []
           (\<lambda>rid. exported 200 ''fake_report_content'') 202) quiet
   = (Inr (),
      \<lparr>stdout =
         [SourceCount (Some ''fake_workspace'') 2, DestCount (Some ''fake_workspace'') 0,
          MigrationStarted ''Report 1'', PrintId ''1'',
          Uploaded ''Report 1'' ''fake_directory/Report 1.pbix'',
          MigrationSuccessful (Some ''fake_import_id''), MigrationTook,
          MigrationStarted ''Report 1'', PrintId ''2'',
          Uploaded ''Report 1'' ''fake_directory/Report 1.pbix'',
          MigrationSuccessful (Some ''fake_import_id''), MigrationTook],
       calls =
         [PostToken (fake_tenant ''vgm''),
          GetGroups (Some ''fake_token_vgm''),
          GetReports (Some ''fake_token_vgm'') (Some ''source_workspace_id''),
          PostToken (fake_tenant ''ft''),
          GetGroups (Some ''fake_token_ft''),
          GetReports (Some ''fake_token_ft'') (Some ''target_workspace_id''),
          GetExport (Some ''fake_token_vgm'') (Some ''source_workspace_id'') ''1'',
          GcsUpload (Some ''fake_bucket'') ''fake_directory/Report 1.pbix'' ''fake_report_content'',
          PostImport (Some ''fake_token_ft'') (Some ''target_workspace_id'') ''Report 1''
            ''fake_report_content'',
          GetExport (Some ''fake_token_vgm'') (Some ''source_workspace_id'') ''2'',
          GcsUpload (Some ''fake_bucket'') ''fake_directory/Report 1.pbix'' ''fake_report_content'',
          PostImport (Some ''fake_token_ft'') (Some ''target_workspace_id'') ''Report 1''
            ''fake_report_content'']\<rparr>)"
  by (simp add: sample_defs code_defs)

text \<open>
  C3 (the code departs from the claim).  The claim: a listing that answers with a
  non-success status is logged, \<open>get_reports\<close> returns an absent result, and the
  orchestrator treats it as "no reports" and continues.  The first half holds; the
  second does not: \<^verbatim>\<open>len\<close> of the absent result raises a TypeError, and the run below,
  whose source listing answers 500, ends there without a call to the destination tenant.
\<close>

theorem listing_error_aborts_run:
  "main (sample_env 500 [] [] (\<lambda>rid. exported 200 ''fake_report_content'') 202) quiet
   = (Inl TypeError,
      \<lparr>stdout = [ReportsError 500 (Some ''source_workspace_id'')],
       calls =
         [PostToken (fake_tenant ''vgm''),
          GetGroups (Some ''fake_token_vgm''),
          GetReports (Some ''fake_token_vgm'') (Some ''source_workspace_id'')]\<rparr>)"
  by (simp add: sample_defs code_defs)

end
